theory Spec2Isabelle
  imports Complex_Main "HOL-Library.Char_ord" "HOL-Library.List_Lexorder"
begin

section \<open>Strings\<close>

text \<open>
  A Go string is its sequence of bytes; \<^typ>\<open>string\<close> is a list of 8-bit characters, so
  \<^term>\<open>length s\<close> is Go's \<open>len(s)\<close> and \<^term>\<open>s ! i\<close> is \<open>s[i]\<close>.
\<close>

text \<open>\<open>toLower\<close>: every byte between \<open>'A'\<close> and \<open>'Z'\<close> is moved up by \<open>'a' - 'A'\<close>.\<close>

definition toLower_byte :: "char \<Rightarrow> char" where
  "toLower_byte c =
     (if CHR ''A'' \<le> c \<and> c \<le> CHR ''Z''
      then char_of (of_char c + (of_char CHR ''a'' - of_char CHR ''A'' :: nat))
      else c)"

definition toLower :: "string \<Rightarrow> string" where
  "toLower s = map toLower_byte s"

text \<open>
  \<open>lastIndex\<close>: the loop \<open>for i := len(s) - 1; i >= 0; i--\<close>; the first argument of the
  helper is \<open>i + 1\<close>. The result is \<open>-1\<close> when the byte does not occur.
\<close>

fun lastIndex_loop :: "nat \<Rightarrow> string \<Rightarrow> char \<Rightarrow> int" where
  "lastIndex_loop 0 s c = - 1"
| "lastIndex_loop (Suc i) s c = (if s ! i = c then int i else lastIndex_loop i s c)"

definition lastIndex :: "string \<Rightarrow> char \<Rightarrow> int" where
  "lastIndex s c = lastIndex_loop (length s) s c"

section \<open>File-type matcher\<close>

text \<open>The loop of \<open>IsFileTypeAccepted\<close> over the accepted types.\<close>

fun accepted_loop :: "string \<Rightarrow> string \<Rightarrow> string list \<Rightarrow> bool" where
  "accepted_loop ext mimeType [] = False"
| "accepted_loop ext mimeType (a # as) =
     (let accepted = toLower a in
      if length accepted > 0 \<and> accepted ! 0 = CHR ''.''
      then (if ext = accepted then True else accepted_loop ext mimeType as)
      else (if mimeType = accepted then True else accepted_loop ext mimeType as))"

definition IsFileTypeAccepted :: "string list \<Rightarrow> string \<Rightarrow> string \<Rightarrow> bool" where
  "IsFileTypeAccepted acceptedTypes filename mimeType =
     (if length acceptedTypes = 0 then False
      else
        let idx = lastIndex filename CHR ''.'';
            ext = (if idx \<ge> 0 then toLower (drop (nat idx) filename) else '''');
            mimeType' = toLower mimeType
        in accepted_loop ext mimeType' acceptedTypes)"

section \<open>Dynamic values and the declarative tool description\<close>

text \<open>
  A value of Go's \<open>interface{}\<close>, with the dynamic types the validators tell apart.
  A \<open>map[string]interface{}\<close> that is only read by key is a partial function.
\<close>

datatype gvalue =
    GNil
  | GBool bool
  | GString string
  | GInt int
  | GInt64 int
  | GFloat64 real
  | GFloat32 real
  | GStrings "string list"
  | GSlice "gvalue list"
  | GMap "string \<Rightarrow> gvalue option"

type_synonym gmap = "string \<Rightarrow> gvalue option"

text \<open>The conversion \<open>int(x)\<close> of a float: the fraction is dropped (towards zero).\<close>

definition go_int :: "real \<Rightarrow> int" where
  "go_int x = (if x \<ge> 0 then \<lfloor>x\<rfloor> else \<lceil>x\<rceil>)"

text \<open>
  \<open>YAMLToolParameter\<close>. \<open>Items\<close> is a pointer to a struct with the one field \<open>Type\<close>;
  \<open>Min\<close>, \<open>Max\<close>, \<open>MinLength\<close> and \<open>MaxLength\<close> are pointers; \<open>Default\<close> is an
  \<open>interface{}\<close>. \<open>Properties\<close> is a map that the code iterates: it is an association list
  read in the order of one such iteration.
\<close>

datatype YAMLToolParameter = YAMLToolParameter
  (Name: string)
  (Type: string)
  (Description: string)
  (Required: bool)
  (Default: gvalue)
  (Enum: "string list")
  (Items: "string option")
  (Properties: "(string \<times> YAMLToolParameter) list")
  (Min_ptr: "real option")
  (Max_ptr: "real option")
  (MinLength: "int option")
  (MaxLength: "int option")
  (Pattern: string)

text \<open>The assignment \<open>opParam.Enum = names\<close>.\<close>

fun Enum_update :: "string list \<Rightarrow> YAMLToolParameter \<Rightarrow> YAMLToolParameter" where
  "Enum_update names (YAMLToolParameter n t d r df e i ps mn mx mnl mxl pt) =
     YAMLToolParameter n t d r df names i ps mn mx mnl mxl pt"

text \<open>The zero value \<open>YAMLToolParameter{}\<close>.\<close>

definition zero_parameter :: YAMLToolParameter where
  "zero_parameter = YAMLToolParameter '''' '''' '''' False GNil [] None [] None None None None ''''"

record YAMLOperationDefinition =
  op_Parameters :: "YAMLToolParameter list"

text \<open>
  \<open>YAMLToolDefinition\<close>. The map \<open>Operations\<close> is an association list that stands for the map
  \<^term>\<open>map_of\<close> of it: \<open>Operations[k]\<close> is the first binding of \<open>k\<close>, the keys are the
  distinct first components, and the map is empty exactly when the list is.
\<close>

record YAMLToolDefinition =
  def_Name :: string
  def_Description :: string
  def_Parameters :: "YAMLToolParameter list"
  def_Operations :: "(string \<times> YAMLOperationDefinition) list"

record Tool =
  Tool_Name :: string
  Tool_Description :: string
  Tool_Parameters :: gmap

text \<open>Indexing the operations map: a missing key gives the zero value and \<open>ok = false\<close>.\<close>

definition lookup_operation ::
  "(string \<times> YAMLOperationDefinition) list \<Rightarrow> string \<Rightarrow> YAMLOperationDefinition \<times> bool" where
  "lookup_operation ops name =
     (case map_of ops name of
        Some d \<Rightarrow> (d, True)
      | None \<Rightarrow> (\<lparr>op_Parameters = []\<rparr>, False))"

text \<open>The keys of the operations map, each once.\<close>

definition operation_keys :: "(string \<times> YAMLOperationDefinition) list \<Rightarrow> string list" where
  "operation_keys ops = remdups (map fst ops)"

datatype error =
    ErrDefinitionNil
  | ErrToolNameRequired
  | ErrToolDescriptionRequired
  | ErrParameterNameRequired
  | ErrTypeRequired
  | ErrEnumRequiresValues
  | ErrArrayRequiresItems
  | ErrUnsupportedType string
  | ErrNestedProperty string error
  | ErrParameter string error
  | ErrConflictingTypes string string string
  | ErrOperationParameterRequired

section \<open>Parameter schema compiler\<close>

text \<open>
  \<open>buildParameterSchema\<close>, with the loop of its \<open>object\<close> case over the nested properties
  (\<open>buildNestedProperties\<close>, carrying \<open>nestedProps\<close> and \<open>nestedRequired\<close>).
\<close>

definition set_description :: "YAMLToolParameter \<Rightarrow> gmap \<Rightarrow> gmap" where
  "set_description param schema =
     (if Description param \<noteq> '''' then schema(''description'' \<mapsto> GString (Description param))
      else schema)"

definition set_default :: "YAMLToolParameter \<Rightarrow> gmap \<Rightarrow> gmap" where
  "set_default param schema =
     (if Default param \<noteq> GNil then schema(''default'' \<mapsto> Default param) else schema)"

fun buildParameterSchema :: "string \<Rightarrow> YAMLToolParameter \<Rightarrow> error + gmap"
  and buildNestedProperties ::
    "(string \<times> YAMLToolParameter) list \<Rightarrow> gmap \<Rightarrow> string list \<Rightarrow> error + (gmap \<times> string list)"
where
  "buildParameterSchema name (YAMLToolParameter n t d r df e i ps mn mx mnl mxl pt) =
    (let param = YAMLToolParameter n t d r df e i ps mn mx mnl mxl pt;
         schema = Map.empty in
     if t = '''' then Inl ErrTypeRequired
     else if t = ''string'' then
       (let schema = schema(''type'' \<mapsto> GString ''string'');
            schema = set_description param schema;
            schema = set_default param schema;
            schema = (if length e > 0 then schema(''enum'' \<mapsto> GStrings e) else schema);
            schema = (case mnl of Some v \<Rightarrow> schema(''minLength'' \<mapsto> GInt v) | None \<Rightarrow> schema);
            schema = (case mxl of Some v \<Rightarrow> schema(''maxLength'' \<mapsto> GInt v) | None \<Rightarrow> schema);
            schema = (if pt \<noteq> '''' then schema(''pattern'' \<mapsto> GString pt) else schema)
        in Inr schema)
     else if t = ''integer'' then
       (let schema = schema(''type'' \<mapsto> GString ''integer'');
            schema = set_description param schema;
            schema = set_default param schema;
            schema = (case mn of Some v \<Rightarrow> schema(''minimum'' \<mapsto> GInt (go_int v)) | None \<Rightarrow> schema);
            schema = (case mx of Some v \<Rightarrow> schema(''maximum'' \<mapsto> GInt (go_int v)) | None \<Rightarrow> schema)
        in Inr schema)
     else if t = ''number'' then
       (let schema = schema(''type'' \<mapsto> GString ''number'');
            schema = set_description param schema;
            schema = set_default param schema;
            schema = (case mn of Some v \<Rightarrow> schema(''minimum'' \<mapsto> GFloat64 v) | None \<Rightarrow> schema);
            schema = (case mx of Some v \<Rightarrow> schema(''maximum'' \<mapsto> GFloat64 v) | None \<Rightarrow> schema)
        in Inr schema)
     else if t = ''boolean'' then
       (let schema = schema(''type'' \<mapsto> GString ''boolean'');
            schema = set_description param schema;
            schema = set_default param schema
        in Inr schema)
     else if t = ''enum'' then
       (if length e = 0 then Inl ErrEnumRequiresValues
        else
          let schema = schema(''type'' \<mapsto> GString ''string'');
              schema = set_description param schema;
              schema = schema(''enum'' \<mapsto> GStrings e);
              schema = set_default param schema
          in Inr schema)
     else if t = ''array'' then
       (case i of
          None \<Rightarrow> Inl ErrArrayRequiresItems
        | Some items_type \<Rightarrow>
            if items_type = '''' then Inl ErrArrayRequiresItems
            else
              let schema = schema(''type'' \<mapsto> GString ''array'');
                  schema = set_description param schema;
                  schema = schema(''items'' \<mapsto> GMap [''type'' \<mapsto> GString items_type]);
                  schema = set_default param schema
              in Inr schema)
     else if t = ''object'' then
       (let schema = schema(''type'' \<mapsto> GString ''object'');
            schema = set_description param schema
        in if length ps > 0 then
             (case buildNestedProperties ps Map.empty [] of
                Inl err \<Rightarrow> Inl err
              | Inr (nestedProps, nestedRequired) \<Rightarrow>
                  let schema = schema(''properties'' \<mapsto> GMap nestedProps);
                      schema = (if length nestedRequired > 0
                                then schema(''required'' \<mapsto> GStrings nestedRequired)
                                else schema)
                  in Inr (set_default param schema))
           else Inr (set_default param schema))
     else Inl (ErrUnsupportedType t))"
| "buildNestedProperties [] nestedProps nestedRequired = Inr (nestedProps, nestedRequired)"
| "buildNestedProperties ((propName, propParam) # rest) nestedProps nestedRequired =
    (case buildParameterSchema propName propParam of
       Inl err \<Rightarrow> Inl (ErrNestedProperty propName err)
     | Inr propSchema \<Rightarrow>
         buildNestedProperties rest (nestedProps(propName \<mapsto> GMap propSchema))
           (if Required propParam then nestedRequired @ [propName] else nestedRequired))"

text \<open>\<open>buildParametersSchema\<close>: the loop carries \<open>properties\<close> and \<open>required\<close>.\<close>

fun buildParametersSchema_loop ::
  "YAMLToolParameter list \<Rightarrow> gmap \<Rightarrow> string list \<Rightarrow> error + (gmap \<times> string list)" where
  "buildParametersSchema_loop [] properties required = Inr (properties, required)"
| "buildParametersSchema_loop (param # params) properties required =
    (if Name param = '''' then Inl ErrParameterNameRequired
     else case buildParameterSchema (Name param) param of
       Inl err \<Rightarrow> Inl (ErrParameter (Name param) err)
     | Inr paramSchema \<Rightarrow>
         buildParametersSchema_loop params (properties(Name param \<mapsto> GMap paramSchema))
           (if Required param then required @ [Name param] else required))"

definition buildParametersSchema :: "YAMLToolParameter list \<Rightarrow> error + (gmap \<times> string list)" where
  "buildParametersSchema params = buildParametersSchema_loop params Map.empty []"

text \<open>
  \<open>addParameterDefinitions\<close>. The map \<open>all\<close> is iterated later, so it is an association
  list with one binding for each key, in the order of insertion.
\<close>

fun addParameterDefinitions ::
  "(string \<times> YAMLToolParameter) list \<Rightarrow> YAMLToolParameter list \<Rightarrow>
   error + (string \<times> YAMLToolParameter) list" where
  "addParameterDefinitions all [] = Inr all"
| "addParameterDefinitions all (param # params) =
    (if Name param = '''' then Inl ErrParameterNameRequired
     else case map_of all (Name param) of
       Some existing \<Rightarrow>
         if Type existing \<noteq> Type param
         then Inl (ErrConflictingTypes (Name param) (Type existing) (Type param))
         else addParameterDefinitions all params
     | None \<Rightarrow> addParameterDefinitions (all @ [(Name param, param)]) params)"

definition sortedOperationNames :: "(string \<times> YAMLOperationDefinition) list \<Rightarrow> string list" where
  "sortedOperationNames operations =
     (if length operations = 0 then [] else sort (operation_keys operations))"

fun containsString :: "string list \<Rightarrow> string \<Rightarrow> bool" where
  "containsString [] v = False"
| "containsString (item # list) v = (if item = v then True else containsString list v)"

text \<open>The loop of \<open>ToToolDefinition\<close> over the sorted operation names.\<close>

fun addOperationDefinitions ::
  "(string \<times> YAMLOperationDefinition) list \<Rightarrow> (string \<times> YAMLToolParameter) list \<Rightarrow>
   string list \<Rightarrow> error + (string \<times> YAMLToolParameter) list" where
  "addOperationDefinitions operations all [] = Inr all"
| "addOperationDefinitions operations all (opName # names) =
    (let opDef = fst (lookup_operation operations opName) in
     case addParameterDefinitions all (op_Parameters opDef) of
       Inl err \<Rightarrow> Inl err
     | Inr all' \<Rightarrow> addOperationDefinitions operations all' names)"

text \<open>The assignment \<open>all[name] = param\<close> for a key that is present.\<close>

fun assign_parameter ::
  "string \<Rightarrow> YAMLToolParameter \<Rightarrow> (string \<times> YAMLToolParameter) list \<Rightarrow>
   (string \<times> YAMLToolParameter) list" where
  "assign_parameter name param [] = [(name, param)]"
| "assign_parameter name param ((k, v) # rest) =
    (if k = name then (k, param) # rest else (k, v) # assign_parameter name param rest)"

text \<open>
  The loop of \<open>ToToolDefinition\<close> over \<open>allParams\<close> that fills \<open>properties\<close>. Go leaves
  the order of a \<open>range\<close> over a map open: the entries come in the order the
  parameter \<open>range_order\<close> of \<open>ToToolDefinition\<close> gives them.
\<close>

fun buildProperties ::
  "(string \<times> YAMLToolParameter) list \<Rightarrow> gmap \<Rightarrow> error + gmap" where
  "buildProperties [] properties = Inr properties"
| "buildProperties ((name, param) # rest) properties =
    (case buildParameterSchema name param of
       Inl err \<Rightarrow> Inl (ErrParameter name err)
     | Inr paramSchema \<Rightarrow> buildProperties rest (properties(name \<mapsto> GMap paramSchema)))"

type_synonym range_order =
  "(string \<times> YAMLToolParameter) list \<Rightarrow> (string \<times> YAMLToolParameter) list"

definition ToToolDefinition :: "range_order \<Rightarrow> YAMLToolDefinition option \<Rightarrow> error + Tool" where
  "ToToolDefinition range_order y_ptr =
    (case y_ptr of
       None \<Rightarrow> Inl ErrDefinitionNil
     | Some y \<Rightarrow>
       if def_Name y = '''' then Inl ErrToolNameRequired
       else if def_Description y = '''' then Inl ErrToolDescriptionRequired
       else if length (def_Operations y) = 0 then
         (case buildParametersSchema (def_Parameters y) of
            Inl err \<Rightarrow> Inl err
          | Inr (properties, required) \<Rightarrow>
              let parametersSchema = [''type'' \<mapsto> GString ''object'',
                                      ''properties'' \<mapsto> GMap properties];
                  parametersSchema = (if length required > 0
                                      then parametersSchema(''required'' \<mapsto> GStrings required)
                                      else parametersSchema)
              in Inr \<lparr>Tool_Name = def_Name y, Tool_Description = def_Description y,
                      Tool_Parameters = parametersSchema\<rparr>)
       else
         (case addParameterDefinitions [] (def_Parameters y) of
            Inl err \<Rightarrow> Inl err
          | Inr allParams \<Rightarrow>
            let operationNames = sortedOperationNames (def_Operations y) in
            case addOperationDefinitions (def_Operations y) allParams operationNames of
              Inl err \<Rightarrow> Inl err
            | Inr allParams \<Rightarrow>
              let allParams =
                    (case map_of allParams ''operation'' of
                       Some opParam \<Rightarrow>
                         if length (Enum opParam) = 0
                         then assign_parameter ''operation'' (Enum_update operationNames opParam)
                                allParams
                         else allParams
                     | None \<Rightarrow> allParams)
              in
              case buildProperties (range_order allParams) Map.empty of
                Inl err \<Rightarrow> Inl err
              | Inr properties \<Rightarrow>
                case buildParametersSchema (def_Parameters y) of
                  Inl err \<Rightarrow> Inl err
                | Inr (_, globalRequired) \<Rightarrow>
                  if map_of allParams ''operation'' = None
                  then Inl ErrOperationParameterRequired
                  else
                    let parametersSchema = [''type'' \<mapsto> GString ''object'',
                                            ''properties'' \<mapsto> GMap properties];
                        required = globalRequired;
                        required = (if \<not> containsString required ''operation''
                                    then required @ [''operation''] else required);
                        parametersSchema = (if length required > 0
                                            then parametersSchema(''required'' \<mapsto> GStrings required)
                                            else parametersSchema)
                    in Inr \<lparr>Tool_Name = def_Name y, Tool_Description = def_Description y,
                            Tool_Parameters = parametersSchema\<rparr>))"

section \<open>Operation validator\<close>

text \<open>
  The errors of the two argument validators, and their texts: the formats
  \<open>required field '%s' is missing\<close> and \<open>unknown operation: %s\<close>.
\<close>

datatype validation_error =
    RequiredFieldMissing string
  | UnknownOperation string

fun error_string :: "validation_error \<Rightarrow> string" where
  "error_string (RequiredFieldMissing name) =
     ''required field '' @ [CHR 0x27] @ name @ [CHR 0x27] @ '' is missing''"
| "error_string (UnknownOperation operation) = ''unknown operation: '' @ operation"

text \<open>\<open>isMissingParam\<close>, on the argument map \<open>params\<close>.\<close>

definition isMissingParam :: "YAMLToolParameter \<Rightarrow> gmap \<Rightarrow> bool" where
  "isMissingParam param params =
     (case params (Name param) of
        None \<Rightarrow> True
      | Some v \<Rightarrow>
          if v = GNil then True
          else if Type param = ''string'' then
            (case v of GString s \<Rightarrow> s = '''' | _ \<Rightarrow> False)
          else False)"







fun findParameter :: "YAMLToolParameter list \<Rightarrow> string \<Rightarrow> YAMLToolParameter \<times> bool" where
  "findParameter [] name = (zero_parameter, False)"
| "findParameter (param # params) name =
    (if Name param = name then (param, True) else findParameter params name)"

text \<open>
  The three loops of \<open>ValidateToolParametersWithOperations\<close> over required parameters:
  \<open>skip\<close> is the name the loop leaves out (none in two of them).
\<close>

fun check_required ::
  "string option \<Rightarrow> YAMLToolParameter list \<Rightarrow> gmap \<Rightarrow> validation_error option" where
  "check_required skip [] params = None"
| "check_required skip (param # rest) params =
    (if Required param \<and> Some (Name param) \<noteq> skip \<and> isMissingParam param params
     then Some (RequiredFieldMissing (Name param))
     else check_required skip rest params)"

definition ValidateToolParametersWithOperations ::
  "YAMLToolDefinition option \<Rightarrow> gmap \<Rightarrow> validation_error option" where
  "ValidateToolParametersWithOperations toolDef_ptr params =
    (case toolDef_ptr of
       None \<Rightarrow> None
     | Some toolDef \<Rightarrow>
       if length (def_Operations toolDef) = 0 then
         check_required None (def_Parameters toolDef) params
       else
         (case params ''operation'' of
            Some (GString operation) \<Rightarrow>
              if operation = '''' then Some (RequiredFieldMissing ''operation'')
              else
                let (opDef, ok) = lookup_operation (def_Operations toolDef) operation;
                    unknown =
                      (if \<not> ok then
                         (let (operationParam, found) =
                                findParameter (def_Parameters toolDef) ''operation'' in
                          if found \<and> length (Enum operationParam) > 0
                          then \<not> containsString (Enum operationParam) operation
                          else True)
                       else False)
                in if unknown then Some (UnknownOperation operation)
                   else
                     (case check_required (Some ''operation'') (def_Parameters toolDef) params of
                        Some err \<Rightarrow> Some err
                      | None \<Rightarrow> check_required None (op_Parameters opDef) params)
          | _ \<Rightarrow> Some (RequiredFieldMissing ''operation'')))"

section \<open>Definition validation\<close>

datatype definition_error =
    DefinitionNil
  | NameRequired
  | NameTooLong nat
  | DescriptionRequired
  | DescriptionTooLong nat
  | NoParameters
  | ParameterNameRequired
  | InvalidType string string
  | ParameterDescriptionRequired string
  | EnumRequiresValues string
  | EnumDefaultNotString string
  | DefaultNotInEnum string string
  | ArrayRequiresItems string
  | MinGreaterThanMax string real real
  | MinLengthGreaterThanMaxLength string int int
  | ConflictingTypes string string string
  | OperationParameterRequired
  | OperationParameterNotString
  | OperationParameterNotRequired
  | OperationNameEmpty
  | OperationEnumMissing string

definition validTypes :: "string list" where
  "validTypes = [''string'', ''integer'', ''number'', ''boolean'', ''enum'', ''array'', ''object'']"

text \<open>
  \<open>validateParameter\<close>, with the loop of its \<open>object\<close> case over the nested properties
  (in the order of the association list).
\<close>

fun validateParameter :: "string \<Rightarrow> YAMLToolParameter \<Rightarrow> string \<Rightarrow> definition_error option"
  and validateProperties ::
    "(string \<times> YAMLToolParameter) list \<Rightarrow> string \<Rightarrow> definition_error option"
where
  "validateParameter name (YAMLToolParameter n t d r df e i ps mn mx mnl mxl pt) prefix =
    (let fullName = (if prefix \<noteq> '''' then prefix @ ''.'' @ name else name) in
     if t \<notin> set validTypes then Some (InvalidType fullName t)
     else if d = '''' then Some (ParameterDescriptionRequired fullName)
     else if t = ''enum'' then
       (if length e = 0 then Some (EnumRequiresValues fullName)
        else if df \<noteq> GNil then
          (case df of
             GString defaultStr \<Rightarrow>
               if defaultStr \<in> set e then None else Some (DefaultNotInEnum fullName defaultStr)
           | _ \<Rightarrow> Some (EnumDefaultNotString fullName))
        else None)
     else if t = ''array'' then
       (case i of
          None \<Rightarrow> Some (ArrayRequiresItems fullName)
        | Some items_type \<Rightarrow>
            if items_type = '''' then Some (ArrayRequiresItems fullName) else None)
     else if t = ''object'' then
       (if length ps > 0 then validateProperties ps fullName else None)
     else if t = ''integer'' \<or> t = ''number'' then
       (case (mn, mx) of
          (Some lo, Some hi) \<Rightarrow> if lo > hi then Some (MinGreaterThanMax fullName lo hi) else None
        | _ \<Rightarrow> None)
     else if t = ''string'' then
       (case (mnl, mxl) of
          (Some lo, Some hi) \<Rightarrow>
            if lo > hi then Some (MinLengthGreaterThanMaxLength fullName lo hi) else None
        | _ \<Rightarrow> None)
     else None)"
| "validateProperties [] fullName = None"
| "validateProperties ((propName, propParam) # rest) fullName =
    (case validateParameter propName propParam fullName of
       Some err \<Rightarrow> Some err
     | None \<Rightarrow> validateProperties rest fullName)"

text \<open>
  The loops of \<open>ValidateYAMLToolDefinition\<close> over a parameter list; they carry the map
  \<open>paramTypes\<close>, which is only read by key.
\<close>

fun validateParameters ::
  "YAMLToolParameter list \<Rightarrow> (string \<Rightarrow> string option) \<Rightarrow>
   definition_error + (string \<Rightarrow> string option)" where
  "validateParameters [] paramTypes = Inr paramTypes"
| "validateParameters (param # rest) paramTypes =
    (if Name param = '''' then Inl ParameterNameRequired
     else case validateParameter (Name param) param '''' of
       Some err \<Rightarrow> Inl err
     | None \<Rightarrow>
        (case paramTypes (Name param) of
           Some existingType \<Rightarrow>
             if existingType \<noteq> Type param
             then Inl (ConflictingTypes (Name param) existingType (Type param))
             else validateParameters rest (paramTypes(Name param \<mapsto> Type param))
         | None \<Rightarrow> validateParameters rest (paramTypes(Name param \<mapsto> Type param))))"

fun validateOperations ::
  "(string \<times> YAMLOperationDefinition) list \<Rightarrow> (string \<Rightarrow> string option) \<Rightarrow>
   definition_error option" where
  "validateOperations [] paramTypes = None"
| "validateOperations ((opName, opDef) # rest) paramTypes =
    (case validateParameters (op_Parameters opDef) paramTypes of
       Inl err \<Rightarrow> Some err
     | Inr paramTypes' \<Rightarrow> validateOperations rest paramTypes')"

text \<open>The loop that looks for an operation name missing from the explicit enum.\<close>

fun enum_missing :: "string list \<Rightarrow> string list \<Rightarrow> definition_error option" where
  "enum_missing enum [] = None"
| "enum_missing enum (opName # rest) =
    (if \<not> containsString enum opName then Some (OperationEnumMissing opName)
     else enum_missing enum rest)"

text \<open>The entries of the operations map, each key once with its value.\<close>

definition operation_entries ::
  "(string \<times> YAMLOperationDefinition) list \<Rightarrow> (string \<times> YAMLOperationDefinition) list" where
  "operation_entries ops = map (\<lambda>k. (k, fst (lookup_operation ops k))) (operation_keys ops)"

type_synonym operations_order =
  "(string \<times> YAMLOperationDefinition) list \<Rightarrow> (string \<times> YAMLOperationDefinition) list"

text \<open>
  \<open>ValidateYAMLToolDefinition\<close>. It ranges three times over the operations map; the
  orders of the second and the third \<open>range\<close> are the parameters \<open>order2\<close> and
  \<open>order3\<close> (the result of the first does not depend on its order).
\<close>

definition ValidateYAMLToolDefinition ::
  "operations_order \<Rightarrow> operations_order \<Rightarrow> YAMLToolDefinition option \<Rightarrow>
   definition_error option" where
  "ValidateYAMLToolDefinition order2 order3 toolDef_ptr =
    (case toolDef_ptr of
       None \<Rightarrow> Some DefinitionNil
     | Some toolDef \<Rightarrow>
       if def_Name toolDef = '''' then Some NameRequired
       else if length (def_Name toolDef) > 64 then Some (NameTooLong (length (def_Name toolDef)))
       else if def_Description toolDef = '''' then Some DescriptionRequired
       else if length (def_Description toolDef) > 1024
         then Some (DescriptionTooLong (length (def_Description toolDef)))
       else if length (def_Parameters toolDef) = 0 \<and> length (def_Operations toolDef) = 0
         then Some NoParameters
       else
         (case validateParameters (def_Parameters toolDef) Map.empty of
            Inl err \<Rightarrow> Some err
          | Inr paramTypes \<Rightarrow>
              if length (def_Operations toolDef) > 0 then
                (let (operationParam, ok) = findParameter (def_Parameters toolDef) ''operation'';
                     entries = operation_entries (def_Operations toolDef)
                 in if \<not> ok then Some OperationParameterRequired
                    else if Type operationParam \<noteq> ''string'' then Some OperationParameterNotString
                    else if \<not> Required operationParam then Some OperationParameterNotRequired
                    else if '''' \<in> set (map fst entries) then Some OperationNameEmpty
                    else
                      (case (if length (Enum operationParam) > 0
                             then enum_missing (Enum operationParam) (map fst (order2 entries))
                             else None) of
                         Some err \<Rightarrow> Some err
                       | None \<Rightarrow> validateOperations (order3 entries) paramTypes))
              else None))"

section \<open>Capability contract and the server-side dispatcher\<close>

text \<open>
  A plugin implementation is a Go value with a fixed set of methods. It is a record with
  one field for each method of the capability interfaces: \<open>None\<close> when the concrete type
  has no such method. A method runs on the state \<open>'s\<close> of the plugin and returns the new
  state; a Go \<open>error\<close> is the text of its \<open>Error()\<close>, and a result \<open>(string, error)\<close> is
  \<open>Inl\<close> of the error text or \<open>Inr\<close> of the value.
\<close>

record AgentContext =
  ctx_Name :: string
  ctx_ConfigPath :: string
  ctx_SettingsPath :: string
  ctx_AgentDir :: string

record FileAttachment =
  file_Name :: string
  file_Type :: string
  file_Size :: int
  file_Content :: string

record OperationInfo =
  opinfo_Name :: string
  opinfo_Parameters :: "string list"
  opinfo_RequiredParameters :: "string list"

record ConfigVariable =
  cv_Key :: string
  cv_Name :: string
  cv_Description :: string
  cv_Type :: string
  cv_Required :: bool
  cv_DefaultValue :: gvalue
  cv_Validation :: string
  cv_Options :: "string list"
  cv_Placeholder :: string

record PluginMetadata =
  meta_Name :: string
  meta_Version :: string
  meta_Description :: string
  meta_Tags :: "string list"
  meta_License :: string
  meta_Repository :: string
  meta_Maintainers :: "(string \<times> string) list"

type_synonym ('a, 's) plugin_method = "'s \<Rightarrow> 'a \<times> 's"

record ('c, 's) PluginTool =
  impl_Call :: "'c \<Rightarrow> string \<Rightarrow> (string + string, 's) plugin_method"
  impl_Version :: "(string, 's) plugin_method option"
  impl_MinAgentVersion :: "(string, 's) plugin_method option"
  impl_MaxAgentVersion :: "(string, 's) plugin_method option"
  impl_APIVersion :: "(string, 's) plugin_method option"
  impl_SetAgentContext :: "(AgentContext \<Rightarrow> (unit, 's) plugin_method) option"
  impl_GetDefaultSettings :: "(string + string, 's) plugin_method option"
  impl_GetRequiredConfig :: "(ConfigVariable list, 's) plugin_method option"
  impl_ValidateConfig :: "(gmap \<Rightarrow> (string option, 's) plugin_method) option"
  impl_InitializeWithConfig :: "(gmap \<Rightarrow> (string option, 's) plugin_method) option"
  impl_GetMetadata :: "(string + PluginMetadata option, 's) plugin_method option"
  impl_GetTags :: "(string list, 's) plugin_method option"
  impl_ServeWebPage ::
    "(string \<Rightarrow> (string \<Rightarrow> string option) \<Rightarrow> (string + string \<times> string, 's) plugin_method) option"
  impl_GetWebPages :: "(string list, 's) plugin_method option"
  impl_GetOperations :: "(OperationInfo list option, 's) plugin_method option"
  impl_AcceptsFiles :: "(string list, 's) plugin_method option"
  impl_CallWithFiles ::
    "('c \<Rightarrow> string \<Rightarrow> FileAttachment list \<Rightarrow> (string + string, 's) plugin_method) option"

text \<open>
  The type assertions \<open>s.Impl.(I)\<close>: the implementation satisfies the interface \<open>I\<close> when
  it has every method of \<open>I\<close> (\<open>Definition\<close> and \<open>Call\<close> it always has).
\<close>

definition is_VersionedTool :: "('c, 's) PluginTool \<Rightarrow> bool" where
  "is_VersionedTool impl = (impl_Version impl \<noteq> None)"

definition is_AgentAwareTool :: "('c, 's) PluginTool \<Rightarrow> bool" where
  "is_AgentAwareTool impl = (impl_SetAgentContext impl \<noteq> None)"

definition is_DefaultSettingsProvider :: "('c, 's) PluginTool \<Rightarrow> bool" where
  "is_DefaultSettingsProvider impl = (impl_GetDefaultSettings impl \<noteq> None)"

definition is_InitializationProvider :: "('c, 's) PluginTool \<Rightarrow> bool" where
  "is_InitializationProvider impl =
     (impl_GetRequiredConfig impl \<noteq> None \<and> impl_ValidateConfig impl \<noteq> None \<and>
      impl_InitializeWithConfig impl \<noteq> None)"

definition is_MetadataProvider :: "('c, 's) PluginTool \<Rightarrow> bool" where
  "is_MetadataProvider impl = (impl_GetMetadata impl \<noteq> None \<and> impl_GetTags impl \<noteq> None)"

definition is_PluginCompatibility :: "('c, 's) PluginTool \<Rightarrow> bool" where
  "is_PluginCompatibility impl =
     (impl_Version impl \<noteq> None \<and> impl_MinAgentVersion impl \<noteq> None \<and>
      impl_MaxAgentVersion impl \<noteq> None \<and> impl_APIVersion impl \<noteq> None)"

definition is_WebPageProvider :: "('c, 's) PluginTool \<Rightarrow> bool" where
  "is_WebPageProvider impl = (impl_ServeWebPage impl \<noteq> None \<and> impl_GetWebPages impl \<noteq> None)"

definition is_OperationsProvider :: "('c, 's) PluginTool \<Rightarrow> bool" where
  "is_OperationsProvider impl = (impl_GetOperations impl \<noteq> None)"

definition is_FileAttachmentHandler :: "('c, 's) PluginTool \<Rightarrow> bool" where
  "is_FileAttachmentHandler impl =
     (impl_AcceptsFiles impl \<noteq> None \<and> impl_CallWithFiles impl \<noteq> None)"

text \<open>
  The wire messages, with the fields the dispatcher sets; a field that a composite
  literal leaves out has its zero value (\<open>''''\<close>, \<open>False\<close>, \<open>[]\<close>, \<open>None\<close>).
\<close>

record CallRequest =
  call_ArgsJson :: string

record CallWithFilesRequest =
  cwf_ArgsJson :: string
  cwf_Files :: "FileAttachment list"

record CallResponse =
  call_ResultJson :: string
  call_Error :: string

record VersionResponse =
  version_Version :: string

record SettingsResponse =
  settings_SettingsJson :: string
  settings_Error :: string

record ProtoConfigVariable =
  pcv_Key :: string
  pcv_Name :: string
  pcv_Description :: string
  pcv_Type :: string
  pcv_Required :: bool
  pcv_DefaultValueJson :: string
  pcv_Validation :: string
  pcv_Options :: "string list"
  pcv_Placeholder :: string

record ConfigVariablesResponse =
  cvr_ConfigVars :: "ProtoConfigVariable list"

record ConfigResponse =
  config_Success :: bool
  config_Error :: string

record MetadataResponse =
  metadata_Metadata :: "PluginMetadata option"
  metadata_Error :: string

record CompatibilityInfoResponse =
  compat_MinAgentVersion :: string
  compat_MaxAgentVersion :: string
  compat_ApiVersion :: string

record WebPagesResponse =
  pages_Pages :: "string list"

record WebPageRequest =
  page_Path :: string
  page_Query :: "string \<Rightarrow> string option"

record WebPageResponse =
  page_Content :: string
  page_ContentType :: string
  page_Error :: string

record OperationsResponse =
  ops_Operations :: "OperationInfo list"
  ops_SupportsOperations :: bool

record AcceptsFilesResponse =
  accepts_AcceptedTypes :: "string list"
  accepts_SupportsFiles :: bool

text \<open>
  A server method returns \<open>(response, error)\<close>: \<open>Inl\<close> of the error text when the error is
  not nil, \<open>Inr\<close> of the response otherwise; and the state of the plugin after the call.
\<close>

type_synonym ('r, 's) rpc = "'s \<Rightarrow> (string + 'r) \<times> 's"

definition Call :: "('c, 's) PluginTool \<Rightarrow> 'c \<Rightarrow> CallRequest \<Rightarrow> (CallResponse, 's) rpc" where
  "Call impl ctx req st =
     (case impl_Call impl ctx (call_ArgsJson req) st of
        (Inl err, st') \<Rightarrow> (Inr \<lparr>call_ResultJson = '''', call_Error = err\<rparr>, st')
      | (Inr result, st') \<Rightarrow> (Inr \<lparr>call_ResultJson = result, call_Error = ''''\<rparr>, st'))"

definition GetVersion :: "('c, 's) PluginTool \<Rightarrow> (VersionResponse, 's) rpc" where
  "GetVersion impl st =
     (case impl_Version impl of
        Some version \<Rightarrow> (case version st of (v, st') \<Rightarrow> (Inr \<lparr>version_Version = v\<rparr>, st'))
      | None \<Rightarrow> (Inr \<lparr>version_Version = ''unknown''\<rparr>, st))"

definition SetAgentContext ::
  "('c, 's) PluginTool \<Rightarrow> AgentContext \<Rightarrow> (unit, 's) rpc" where
  "SetAgentContext impl req st =
     (case impl_SetAgentContext impl of
        Some setAgentContext \<Rightarrow>
          (case setAgentContext
                  \<lparr>ctx_Name = ctx_Name req, ctx_ConfigPath = ctx_ConfigPath req,
                   ctx_SettingsPath = ctx_SettingsPath req, ctx_AgentDir = ctx_AgentDir req\<rparr> st of
             (_, st') \<Rightarrow> (Inr (), st'))
      | None \<Rightarrow> (Inr (), st))"

definition GetDefaultSettings :: "('c, 's) PluginTool \<Rightarrow> (SettingsResponse, 's) rpc" where
  "GetDefaultSettings impl st =
     (case impl_GetDefaultSettings impl of
        Some getDefaultSettings \<Rightarrow>
          (case getDefaultSettings st of
             (Inl err, st') \<Rightarrow> (Inr \<lparr>settings_SettingsJson = '''', settings_Error = err\<rparr>, st')
           | (Inr settings, st') \<Rightarrow>
               (Inr \<lparr>settings_SettingsJson = settings, settings_Error = ''''\<rparr>, st'))
      | None \<Rightarrow> (Inr \<lparr>settings_SettingsJson = '''', settings_Error = ''''\<rparr>, st))"

text \<open>
  \<open>json.Marshal\<close> and \<open>json.Unmarshal\<close> belong to the standard library: they are the
  parameters \<open>marshal\<close> (whose error the code drops) and \<open>unmarshal\<close>.
\<close>

definition GetRequiredConfig ::
  "(gvalue \<Rightarrow> string) \<Rightarrow> ('c, 's) PluginTool \<Rightarrow> (ConfigVariablesResponse, 's) rpc" where
  "GetRequiredConfig marshal impl st =
     (case (impl_GetRequiredConfig impl, impl_ValidateConfig impl, impl_InitializeWithConfig impl) of
        (Some getRequiredConfig, Some _, Some _) \<Rightarrow>
          (case getRequiredConfig st of
             (configVars, st') \<Rightarrow>
               (Inr \<lparr>cvr_ConfigVars =
                       map (\<lambda>cv. \<lparr>pcv_Key = cv_Key cv, pcv_Name = cv_Name cv,
                                   pcv_Description = cv_Description cv, pcv_Type = cv_Type cv,
                                   pcv_Required = cv_Required cv,
                                   pcv_DefaultValueJson = marshal (cv_DefaultValue cv),
                                   pcv_Validation = cv_Validation cv, pcv_Options = cv_Options cv,
                                   pcv_Placeholder = cv_Placeholder cv\<rparr>) configVars\<rparr>, st'))
      | _ \<Rightarrow> (Inr \<lparr>cvr_ConfigVars = []\<rparr>, st))"

definition ValidateConfig ::
  "(string \<Rightarrow> string + gmap) \<Rightarrow> ('c, 's) PluginTool \<Rightarrow> string \<Rightarrow> (ConfigResponse, 's) rpc" where
  "ValidateConfig unmarshal impl configJson st =
     (case (impl_GetRequiredConfig impl, impl_ValidateConfig impl, impl_InitializeWithConfig impl) of
        (Some _, Some validateConfig, Some _) \<Rightarrow>
          (case unmarshal configJson of
             Inl err \<Rightarrow> (Inr \<lparr>config_Success = False, config_Error = err\<rparr>, st)
           | Inr config \<Rightarrow>
               (case validateConfig config st of
                  (Some err, st') \<Rightarrow> (Inr \<lparr>config_Success = False, config_Error = err\<rparr>, st')
                | (None, st') \<Rightarrow> (Inr \<lparr>config_Success = True, config_Error = ''''\<rparr>, st')))
      | _ \<Rightarrow> (Inr \<lparr>config_Success = False,
                     config_Error = ''plugin does not implement InitializationProvider''\<rparr>, st))"

definition InitializeWithConfig ::
  "(string \<Rightarrow> string + gmap) \<Rightarrow> ('c, 's) PluginTool \<Rightarrow> string \<Rightarrow> (ConfigResponse, 's) rpc" where
  "InitializeWithConfig unmarshal impl configJson st =
     (case (impl_GetRequiredConfig impl, impl_ValidateConfig impl, impl_InitializeWithConfig impl) of
        (Some _, Some _, Some initializeWithConfig) \<Rightarrow>
          (case unmarshal configJson of
             Inl err \<Rightarrow> (Inr \<lparr>config_Success = False, config_Error = err\<rparr>, st)
           | Inr config \<Rightarrow>
               (case initializeWithConfig config st of
                  (Some err, st') \<Rightarrow> (Inr \<lparr>config_Success = False, config_Error = err\<rparr>, st')
                | (None, st') \<Rightarrow> (Inr \<lparr>config_Success = True, config_Error = ''''\<rparr>, st')))
      | _ \<Rightarrow> (Inr \<lparr>config_Success = False,
                     config_Error = ''plugin does not implement InitializationProvider''\<rparr>, st))"

definition GetMetadata :: "('c, 's) PluginTool \<Rightarrow> (MetadataResponse, 's) rpc" where
  "GetMetadata impl st =
     (case (impl_GetMetadata impl, impl_GetTags impl) of
        (Some getMetadata, Some getTags) \<Rightarrow>
          (case getMetadata st of
             (Inl err, st') \<Rightarrow> (Inr \<lparr>metadata_Metadata = None, metadata_Error = err\<rparr>, st')
           | (Inr None, st') \<Rightarrow> (Inr \<lparr>metadata_Metadata = None, metadata_Error = ''''\<rparr>, st')
           | (Inr (Some metadata), st') \<Rightarrow>
               (case getTags st' of
                  (tags, st'') \<Rightarrow>
                    (Inr \<lparr>metadata_Metadata = Some (metadata\<lparr>meta_Tags := tags\<rparr>),
                          metadata_Error = ''''\<rparr>, st'')))
      | _ \<Rightarrow> (Inr \<lparr>metadata_Metadata = None, metadata_Error = ''''\<rparr>, st))"

definition GetCompatibilityInfo ::
  "('c, 's) PluginTool \<Rightarrow> (CompatibilityInfoResponse, 's) rpc" where
  "GetCompatibilityInfo impl st =
     (case (impl_Version impl, impl_MinAgentVersion impl, impl_MaxAgentVersion impl,
            impl_APIVersion impl) of
        (Some _, Some minAgentVersion, Some maxAgentVersion, Some apiVersion) \<Rightarrow>
          (case minAgentVersion st of
             (lo, st1) \<Rightarrow>
               (case maxAgentVersion st1 of
                  (hi, st2) \<Rightarrow>
                    (case apiVersion st2 of
                       (api, st3) \<Rightarrow>
                         (Inr \<lparr>compat_MinAgentVersion = lo, compat_MaxAgentVersion = hi,
                               compat_ApiVersion = api\<rparr>, st3))))
      | _ \<Rightarrow> (Inr \<lparr>compat_MinAgentVersion = '''', compat_MaxAgentVersion = '''',
                     compat_ApiVersion = ''''\<rparr>, st))"

definition GetWebPages :: "('c, 's) PluginTool \<Rightarrow> (WebPagesResponse, 's) rpc" where
  "GetWebPages impl st =
     (case (impl_ServeWebPage impl, impl_GetWebPages impl) of
        (Some _, Some getWebPages) \<Rightarrow>
          (case getWebPages st of (pages, st') \<Rightarrow> (Inr \<lparr>pages_Pages = pages\<rparr>, st'))
      | _ \<Rightarrow> (Inr \<lparr>pages_Pages = []\<rparr>, st))"

definition ServeWebPage ::
  "('c, 's) PluginTool \<Rightarrow> WebPageRequest \<Rightarrow> (WebPageResponse, 's) rpc" where
  "ServeWebPage impl req st =
     (case (impl_ServeWebPage impl, impl_GetWebPages impl) of
        (Some serveWebPage, Some _) \<Rightarrow>
          (case serveWebPage (page_Path req) (page_Query req) st of
             (Inl err, st') \<Rightarrow>
               (Inr \<lparr>page_Content = '''', page_ContentType = '''', page_Error = err\<rparr>, st')
           | (Inr (content, contentType), st') \<Rightarrow>
               (Inr \<lparr>page_Content = content, page_ContentType = contentType,
                     page_Error = ''''\<rparr>, st'))
      | _ \<Rightarrow> (Inr \<lparr>page_Content = '''', page_ContentType = '''',
                     page_Error = ''plugin does not implement WebPageProvider''\<rparr>, st))"

definition GetOperations :: "('c, 's) PluginTool \<Rightarrow> (OperationsResponse, 's) rpc" where
  "GetOperations impl st =
     (case impl_GetOperations impl of
        Some getOperations \<Rightarrow>
          (case getOperations st of
             (None, st') \<Rightarrow> (Inr \<lparr>ops_Operations = [], ops_SupportsOperations = False\<rparr>, st')
           | (Some operations, st') \<Rightarrow>
               (Inr \<lparr>ops_Operations =
                       map (\<lambda>op. \<lparr>opinfo_Name = opinfo_Name op,
                                   opinfo_Parameters = opinfo_Parameters op,
                                   opinfo_RequiredParameters = opinfo_RequiredParameters op\<rparr>)
                         operations,
                     ops_SupportsOperations = True\<rparr>, st'))
      | None \<Rightarrow> (Inr \<lparr>ops_Operations = [], ops_SupportsOperations = False\<rparr>, st))"

definition AcceptsFiles :: "('c, 's) PluginTool \<Rightarrow> (AcceptsFilesResponse, 's) rpc" where
  "AcceptsFiles impl st =
     (case (impl_AcceptsFiles impl, impl_CallWithFiles impl) of
        (Some acceptsFiles, Some _) \<Rightarrow>
          (case acceptsFiles st of
             (acceptedTypes, st') \<Rightarrow>
               (Inr \<lparr>accepts_AcceptedTypes = acceptedTypes, accepts_SupportsFiles = True\<rparr>, st'))
      | _ \<Rightarrow> (Inr \<lparr>accepts_AcceptedTypes = [], accepts_SupportsFiles = False\<rparr>, st))"

definition CallWithFiles ::
  "('c, 's) PluginTool \<Rightarrow> 'c \<Rightarrow> CallWithFilesRequest \<Rightarrow> (CallResponse, 's) rpc" where
  "CallWithFiles impl ctx req st =
     (case (impl_AcceptsFiles impl, impl_CallWithFiles impl) of
        (Some _, Some callWithFiles) \<Rightarrow>
          (let files = map (\<lambda>pf. \<lparr>file_Name = file_Name pf, file_Type = file_Type pf,
                                   file_Size = file_Size pf, file_Content = file_Content pf\<rparr>)
                         (cwf_Files req)
           in case callWithFiles ctx (cwf_ArgsJson req) files st of
                (Inl err, st') \<Rightarrow> (Inr \<lparr>call_ResultJson = '''', call_Error = err\<rparr>, st')
              | (Inr result, st') \<Rightarrow> (Inr \<lparr>call_ResultJson = result, call_Error = ''''\<rparr>, st'))
      | _ \<Rightarrow>
          (case impl_Call impl ctx (cwf_ArgsJson req) st of
             (Inl err, st') \<Rightarrow> (Inr \<lparr>call_ResultJson = '''', call_Error = err\<rparr>, st')
           | (Inr result, st') \<Rightarrow> (Inr \<lparr>call_ResultJson = result, call_Error = ''''\<rparr>, st')))"

text \<open>
  The client-side proxy of \<open>ValidateConfig\<close>, after the transport: the error the host-side
  caller gets from a response (\<open>None\<close> is nil). The response of the server always arrives
  (the transport is out of the model).
\<close>

definition client_config_result :: "ConfigResponse \<Rightarrow> string option" where
  "client_config_result resp =
     (if \<not> config_Success resp then Some (config_Error resp) else None)"

section \<open>Notions of the specification\<close>

text \<open>An entry of the accepted-types list is dot-prefixed when its first byte is a dot.\<close>

definition dot_prefixed :: "string \<Rightarrow> bool" where
  "dot_prefixed a = (a \<noteq> [] \<and> hd a = CHR ''.'')"

text \<open>
  The extension of a filename as the specification words it: the substring from the last
  dot to the end, the dot included; a filename without a dot has none.
\<close>

definition extension_spec :: "string \<Rightarrow> string option" where
  "extension_spec f =
     (if CHR ''.'' \<in> set f
      then Some (CHR ''.'' # rev (takeWhile (\<lambda>c. c \<noteq> CHR ''.'') (rev f)))
      else None)"



text \<open>What a compiled tool shows: its top-level required list and its properties.\<close>

definition schema_required :: "Tool \<Rightarrow> string list option" where
  "schema_required t =
     (case Tool_Parameters t ''required'' of Some (GStrings r) \<Rightarrow> Some r | _ \<Rightarrow> None)"

definition schema_properties :: "Tool \<Rightarrow> gmap option" where
  "schema_properties t =
     (case Tool_Parameters t ''properties'' of Some (GMap props) \<Rightarrow> Some props | _ \<Rightarrow> None)"

text \<open>The enum that the compiled schema carries for a property, when compilation succeeds.\<close>

definition compiled_enum :: "error + Tool \<Rightarrow> string \<Rightarrow> string list option" where
  "compiled_enum result name =
     (case result of
        Inl _ \<Rightarrow> None
      | Inr t \<Rightarrow>
          (case schema_properties t of
             None \<Rightarrow> None
           | Some props \<Rightarrow>
               (case props name of
                  Some (GMap s) \<Rightarrow> (case s ''enum'' of Some (GStrings e) \<Rightarrow> Some e | _ \<Rightarrow> None)
                | _ \<Rightarrow> None)))"




text \<open>A \<open>range\<close> over a map visits each entry: an order keeps the entries.\<close>

definition keeps_entries :: "range_order \<Rightarrow> bool" where
  "keeps_entries range_order = (\<forall>al. set (range_order al) = set al)"

section \<open>Concrete inputs\<close>

definition in_order :: range_order where
  "in_order al = al"

definition same_order :: operations_order where
  "same_order al = al"

text \<open>A plugin with the two mandatory methods only; its state counts the calls.\<close>

definition echo_plugin :: "(unit, nat) PluginTool" where
  "echo_plugin =
     \<lparr>impl_Call = (\<lambda>ctx args st. (Inr args, Suc st)),
      impl_Version = None, impl_MinAgentVersion = None, impl_MaxAgentVersion = None,
      impl_APIVersion = None, impl_SetAgentContext = None, impl_GetDefaultSettings = None,
      impl_GetRequiredConfig = None, impl_ValidateConfig = None,
      impl_InitializeWithConfig = None, impl_GetMetadata = None, impl_GetTags = None,
      impl_ServeWebPage = None, impl_GetWebPages = None, impl_GetOperations = None,
      impl_AcceptsFiles = None, impl_CallWithFiles = None\<rparr>"

definition empty_object :: "string \<Rightarrow> string + gmap" where
  "empty_object s = Inr Map.empty"

definition render_null :: "gvalue \<Rightarrow> string" where
  "render_null v = ''null''"

definition wav_request :: CallWithFilesRequest where
  "wav_request =
     \<lparr>cwf_ArgsJson = ''{}'',
      cwf_Files = [\<lparr>file_Name = ''drums.wav'', file_Type = ''audio/wav'', file_Size = 4,
                     file_Content = ''RIFF''\<rparr>]\<rparr>"

definition plain_parameter :: "string \<Rightarrow> string \<Rightarrow> bool \<Rightarrow> YAMLToolParameter" where
  "plain_parameter name type required =
     YAMLToolParameter name type name required GNil [] None [] None None None None ''''"

text \<open>A flat definition with one required integer parameter, and a call that gives it 0.\<close>

definition count_definition :: YAMLToolDefinition where
  "count_definition =
     \<lparr>def_Name = ''counter'', def_Description = ''counts'',
      def_Parameters = [plain_parameter ''count'' ''integer'' True],
      def_Operations = []\<rparr>"

definition count_schema :: gmap where
  "count_schema =
     [''type'' \<mapsto> GString ''object'',
      ''properties'' \<mapsto> GMap [''count'' \<mapsto> GMap [''type'' \<mapsto> GString ''integer'',
                                                   ''description'' \<mapsto> GString ''count'']],
      ''required'' \<mapsto> GStrings [''count'']]"


text \<open>A definition with operations, and calls of it.\<close>

definition status_definition :: YAMLToolDefinition where
  "status_definition =
     \<lparr>def_Name = ''multi-op'', def_Description = ''test'',
      def_Parameters = [YAMLToolParameter ''operation'' ''string'' ''operation'' True GNil
                          [''echo'', ''status'', ''ping''] None [] None None None None '''',
                        plain_parameter ''target'' ''string'' True],
      def_Operations = [(''echo'', \<lparr>op_Parameters = [plain_parameter ''message'' ''string'' True,
                                                        plain_parameter ''times'' ''integer'' True]\<rparr>),
                        (''status'', \<lparr>op_Parameters = []\<rparr>)]\<rparr>"


definition ping_args :: gmap where
  "ping_args = [''operation'' \<mapsto> GString ''ping'']"

definition reset_args :: gmap where
  "reset_args = [''operation'' \<mapsto> GString ''reset'', ''target'' \<mapsto> GString ''host'']"

definition null_operation_args :: gmap where
  "null_operation_args = [''operation'' \<mapsto> GNil]"



text \<open>Requests to a plugin.\<close>

definition default_agent :: AgentContext where
  "default_agent =
     \<lparr>ctx_Name = ''default'', ctx_ConfigPath = ''agents/default/config.json'',
      ctx_SettingsPath = ''agents/default/agent_settings.json'', ctx_AgentDir = ''agents/default''\<rparr>"

definition home_page :: WebPageRequest where
  "home_page = \<lparr>page_Path = ''home'', page_Query = Map.empty\<rparr>"

section \<open>The file-type matcher meets its contract\<close>

lemma toLower_byte_dot: "toLower_byte c = CHR ''.'' \<longleftrightarrow> c = CHR ''.''"
proof (cases "CHR ''A'' \<le> c \<and> c \<le> CHR ''Z''")
  case True
  then have r: "65 \<le> (of_char c :: nat)" "(of_char c :: nat) \<le> 90"
    by (simp_all add: less_eq_char_def)
  have "(of_char (toLower_byte c) :: nat) = of_char c + 32"
    using True r by (simp add: toLower_byte_def)
  then have "(of_char (toLower_byte c) :: nat) \<noteq> of_char CHR ''.''" using r by simp
  moreover have "c \<noteq> CHR ''.''" using r by auto
  ultimately show ?thesis by auto
next
  case False
  then show ?thesis by (auto simp: toLower_byte_def)
qed

lemma toLower_dot_prefixed:
  "(length (toLower a) > 0 \<and> toLower a ! 0 = CHR ''.'') \<longleftrightarrow> dot_prefixed a"
  by (cases a) (simp_all add: toLower_def dot_prefixed_def toLower_byte_dot)

lemma lastIndex_loop_none:
  "c \<notin> set (take n s) \<Longrightarrow> n \<le> length s \<Longrightarrow> lastIndex_loop n s c = - 1"
proof (induction n)
  case 0 then show ?case by simp
next
  case (Suc n)
  then have "s ! n \<in> set (take (Suc n) s)" by (simp add: take_Suc_conv_app_nth)
  with Suc show ?case by (auto simp: take_Suc_conv_app_nth)
qed

lemma lastIndex_loop_split:
  "c \<notin> set (take k ys) \<Longrightarrow> k \<le> length ys \<Longrightarrow>
   lastIndex_loop (length xs + Suc k) (xs @ c # ys) c = int (length xs)"
proof (induction k)
  case 0 then show ?case by simp
next
  case (Suc k)
  then have "ys ! k \<noteq> c" by (auto simp: take_Suc_conv_app_nth)
  moreover have "(xs @ c # ys) ! (length xs + Suc k) = ys ! k"
    by (simp add: nth_append)
  ultimately show ?case using Suc by (auto simp: take_Suc_conv_app_nth)
qed

lemma lastIndex_absent: "c \<notin> set s \<Longrightarrow> lastIndex s c = - 1"
  by (simp add: lastIndex_def lastIndex_loop_none)

lemma lastIndex_last: "c \<notin> set ys \<Longrightarrow> lastIndex (xs @ c # ys) c = int (length xs)"
  using lastIndex_loop_split [of c "length ys" ys xs] by (simp add: lastIndex_def)

lemma extension_code:
  "(if lastIndex f CHR ''.'' \<ge> 0 then Some (drop (nat (lastIndex f CHR ''.'')) f) else None)
   = extension_spec f"
proof (cases "CHR ''.'' \<in> set f")
  case False
  then show ?thesis by (simp add: lastIndex_absent extension_spec_def)
next
  case True
  then obtain xs ys where f: "f = xs @ CHR ''.'' # ys" and n: "CHR ''.'' \<notin> set ys"
    by (meson split_list_last)
  have "takeWhile (\<lambda>c. c \<noteq> CHR ''.'') (rev ys @ CHR ''.'' # rev xs) = rev ys"
    using n by (subst takeWhile_append2) auto
  then show ?thesis using f n by (simp add: lastIndex_last extension_spec_def)
qed

lemma accepted_loop_iff:
  "accepted_loop ext m acc \<longleftrightarrow>
     (\<exists>a\<in>set acc. dot_prefixed a \<and> toLower a = ext) \<or>
     (\<exists>a\<in>set acc. \<not> dot_prefixed a \<and> toLower a = m)"
proof (induction acc)
  case Nil then show ?case by simp
next
  case (Cons a as)
  show ?case
  proof (cases "dot_prefixed a")
    case True
    then have "length (toLower a) > 0 \<and> toLower a ! 0 = CHR ''.''"
      using toLower_dot_prefixed by blast
    then show ?thesis using Cons True by (auto simp: Let_def)
  next
    case False
    then have "\<not> (length (toLower a) > 0 \<and> toLower a ! 0 = CHR ''.'')"
      using toLower_dot_prefixed by blast
    then show ?thesis using Cons False by (auto simp: Let_def)
  qed
qed

lemma IsFileTypeAccepted_char:
  "IsFileTypeAccepted acceptedTypes filename mimeType \<longleftrightarrow>
     acceptedTypes \<noteq> [] \<and>
     ((\<exists>a\<in>set acceptedTypes. dot_prefixed a \<and>
          (\<exists>e. extension_spec filename = Some e \<and> toLower a = toLower e)) \<or>
      (\<exists>a\<in>set acceptedTypes. \<not> dot_prefixed a \<and> toLower a = toLower mimeType))"
proof (cases "extension_spec filename")
  case None
  then have "\<not> lastIndex filename CHR ''.'' \<ge> 0"
    using extension_code [of filename] by (auto split: if_splits)
  moreover have "\<And>a. dot_prefixed a \<Longrightarrow> toLower a \<noteq> []"
    by (simp add: dot_prefixed_def toLower_def)
  ultimately show ?thesis using None
    by (auto simp: IsFileTypeAccepted_def accepted_loop_iff Let_def)
next
  case (Some e)
  then have "lastIndex filename CHR ''.'' \<ge> 0"
    "drop (nat (lastIndex filename CHR ''.'')) filename = e"
    using extension_code [of filename] by (auto split: if_splits)
  then show ?thesis using Some
    by (auto simp: IsFileTypeAccepted_def accepted_loop_iff Let_def)
qed

text \<open>
  C4. \<open>IsFileTypeAccepted\<close> is false on the empty list of accepted types. Otherwise it is true
  exactly when some dot-prefixed entry equals, after lowering the bytes \<open>A\<close> to \<open>Z\<close> on both
  sides, the extension of the filename (the substring from its last dot to the end), or some
  entry that is not dot-prefixed equals the declared media type in the same way. A filename
  without a dot matches no dot-prefixed entry: it is accepted exactly when an entry that is not
  dot-prefixed equals the media type.
\<close>

theorem IsFileTypeAccepted_contract:
  "IsFileTypeAccepted [] filename mimeType = False \<and>
   (acceptedTypes \<noteq> [] \<longrightarrow>
      IsFileTypeAccepted acceptedTypes filename mimeType =
        ((\<exists>a\<in>set acceptedTypes. dot_prefixed a \<and>
            (\<exists>e. extension_spec filename = Some e \<and> toLower a = toLower e)) \<or>
         (\<exists>a\<in>set acceptedTypes. \<not> dot_prefixed a \<and> toLower a = toLower mimeType))) \<and>
   (CHR ''.'' \<notin> set filename \<longrightarrow>
      IsFileTypeAccepted acceptedTypes filename mimeType =
        (\<exists>a\<in>set acceptedTypes. \<not> dot_prefixed a \<and> toLower a = toLower mimeType))"
proof -
  have "CHR ''.'' \<notin> set filename \<Longrightarrow> extension_spec filename = None"
    by (simp add: extension_spec_def)
  then show ?thesis
    using IsFileTypeAccepted_char [of acceptedTypes filename mimeType]
      IsFileTypeAccepted_char [of "[]" filename mimeType]
    by auto
qed

theorem IsFileTypeAccepted_contract_witness:
  "[''.wav'', ''audio/wav''] \<noteq> [] \<and> CHR ''.'' \<notin> set ''noext'' \<and>
   IsFileTypeAccepted [''.wav'', ''audio/wav''] ''noext'' ''AUDIO/WAV'' \<and>
   \<not> IsFileTypeAccepted [''.wav''] ''noext'' '''' \<and>
   (\<exists>a\<in>set [''.wav'', ''audio/wav''].
      \<not> dot_prefixed a \<and> toLower a = toLower ''AUDIO/WAV'')"
proof -
  have a: "IsFileTypeAccepted [''.wav'', ''audio/wav''] ''noext'' ''AUDIO/WAV''"
    by code_simp
  have b: "\<not> IsFileTypeAccepted [''.wav''] ''noext'' ''''"
    by code_simp
  have c: "CHR ''.'' \<notin> set ''noext''" by simp
  have d: "[''.wav'', ''audio/wav''] \<noteq> ([] :: string list)" by simp
  have "IsFileTypeAccepted [''.wav'', ''audio/wav''] ''noext'' ''AUDIO/WAV'' =
        (\<exists>a\<in>set [''.wav'', ''audio/wav''].
           \<not> dot_prefixed a \<and> toLower a = toLower ''AUDIO/WAV'')"
    using c
      IsFileTypeAccepted_contract [of "''noext''" "''AUDIO/WAV''" "[''.wav'', ''audio/wav'']"]
    by blast
  with a have "\<exists>a\<in>set [''.wav'', ''audio/wav''].
           \<not> dot_prefixed a \<and> toLower a = toLower ''AUDIO/WAV''"
    by blast
  with a b c d show ?thesis by blast
qed

section \<open>Facts about the validators\<close>

lemma containsString_iff: "containsString list v \<longleftrightarrow> v \<in> set list"
  by (induction list) auto




lemma check_required_Some:
  "check_required skip ps params = Some e \<Longrightarrow>
   \<exists>p\<in>set ps. Required p \<and> Some (Name p) \<noteq> skip \<and> isMissingParam p params \<and>
     e = RequiredFieldMissing (Name p)"
  by (induction ps) (auto split: if_splits)


lemma lookup_operation_None:
  "map_of ops k = None \<Longrightarrow> lookup_operation ops k = (\<lparr>op_Parameters = []\<rparr>, False)"
  by (simp add: lookup_operation_def)




lemma validate_no_operation:
  "def_Operations toolDef \<noteq> [] \<Longrightarrow>
   \<not> (\<exists>operation. params ''operation'' = Some (GString operation) \<and> operation \<noteq> '''') \<Longrightarrow>
   ValidateToolParametersWithOperations (Some toolDef) params =
     Some (RequiredFieldMissing ''operation'')"
  by (auto simp: ValidateToolParametersWithOperations_def split: option.splits gvalue.splits)


lemma validate_unknown:
  "def_Operations toolDef \<noteq> [] \<Longrightarrow> params ''operation'' = Some (GString operation) \<Longrightarrow>
   operation \<noteq> '''' \<Longrightarrow> map_of (def_Operations toolDef) operation = None \<Longrightarrow>
   ValidateToolParametersWithOperations (Some toolDef) params =
     (if snd (findParameter (def_Parameters toolDef) ''operation'') \<and>
         Enum (fst (findParameter (def_Parameters toolDef) ''operation'')) \<noteq> [] \<and>
         operation \<in> set (Enum (fst (findParameter (def_Parameters toolDef) ''operation'')))
      then check_required (Some ''operation'') (def_Parameters toolDef) params
      else Some (UnknownOperation operation))"
  by (auto simp: ValidateToolParametersWithOperations_def lookup_operation_None
      containsString_iff split: prod.splits option.splits)






section \<open>Numeric zero and the two validators (C1)\<close>

text \<open>
  The schema that \<open>ToToolDefinition\<close> compiles from the flat definition with the one
  required integer parameter \<open>count\<close>.
\<close>

lemma count_compiles:
  "ToToolDefinition in_order (Some count_definition) =
     Inr \<lparr>Tool_Name = ''counter'', Tool_Description = ''counts'', Tool_Parameters = count_schema\<rparr>"
  by (simp add: ToToolDefinition_def count_definition_def count_schema_def plain_parameter_def
      buildParametersSchema_def set_description_def set_default_def Let_def)





section \<open>Absent capabilities (C2, C5)\<close>

text \<open>
  C2, as stated, fails for \<open>ValidateConfig\<close>: for a plugin that is no
  \<open>InitializationProvider\<close> the response has \<open>Success = false\<close> and the error text
  \<open>plugin does not implement InitializationProvider\<close> in its \<open>Error\<close> field, the field that
  carries handler errors, and the client-side proxy hands this text to the host-side caller as
  an error.
\<close>

theorem ValidateConfig_absent_is_error:
  "\<not> is_InitializationProvider echo_plugin \<and>
   ValidateConfig empty_object echo_plugin ''{}'' 0 =
     (Inr \<lparr>config_Success = False,
           config_Error = ''plugin does not implement InitializationProvider''\<rparr>, 0) \<and>
   client_config_result
     \<lparr>config_Success = False,
      config_Error = ''plugin does not implement InitializationProvider''\<rparr> =
     Some ''plugin does not implement InitializationProvider''"
  by (simp add: is_InitializationProvider_def ValidateConfig_def echo_plugin_def
      client_config_result_def)

text \<open>
  C2, amended. For a capability the plugin does not have, the dispatcher calls no method of the
  plugin and returns a response with a nil error: \<open>GetVersion\<close> the version \<open>unknown\<close>;
  \<open>SetAgentContext\<close>, \<open>GetDefaultSettings\<close>, \<open>GetRequiredConfig\<close>, \<open>GetMetadata\<close>,
  \<open>GetCompatibilityInfo\<close> and \<open>GetWebPages\<close> the empty response; \<open>GetOperations\<close>
  \<open>SupportsOperations = false\<close>; \<open>AcceptsFiles\<close> \<open>SupportsFiles = false\<close> with no accepted
  types. \<open>ValidateConfig\<close> and \<open>InitializeWithConfig\<close> return \<open>Success = false\<close> with the
  error text \<open>plugin does not implement InitializationProvider\<close>, and \<open>ServeWebPage\<close> returns
  the error text \<open>plugin does not implement WebPageProvider\<close>.
\<close>

theorem absent_capability_responses:
  "(\<not> is_VersionedTool impl \<longrightarrow>
      GetVersion impl st = (Inr \<lparr>version_Version = ''unknown''\<rparr>, st)) \<and>
   (\<not> is_AgentAwareTool impl \<longrightarrow> SetAgentContext impl agent st = (Inr (), st)) \<and>
   (\<not> is_DefaultSettingsProvider impl \<longrightarrow>
      GetDefaultSettings impl st =
        (Inr \<lparr>settings_SettingsJson = '''', settings_Error = ''''\<rparr>, st)) \<and>
   (\<not> is_InitializationProvider impl \<longrightarrow>
      GetRequiredConfig marshal impl st = (Inr \<lparr>cvr_ConfigVars = []\<rparr>, st) \<and>
      ValidateConfig unmarshal impl configJson st =
        (Inr \<lparr>config_Success = False,
              config_Error = ''plugin does not implement InitializationProvider''\<rparr>, st) \<and>
      InitializeWithConfig unmarshal impl configJson st =
        (Inr \<lparr>config_Success = False,
              config_Error = ''plugin does not implement InitializationProvider''\<rparr>, st)) \<and>
   (\<not> is_MetadataProvider impl \<longrightarrow>
      GetMetadata impl st = (Inr \<lparr>metadata_Metadata = None, metadata_Error = ''''\<rparr>, st)) \<and>
   (\<not> is_PluginCompatibility impl \<longrightarrow>
      GetCompatibilityInfo impl st =
        (Inr \<lparr>compat_MinAgentVersion = '''', compat_MaxAgentVersion = '''',
              compat_ApiVersion = ''''\<rparr>, st)) \<and>
   (\<not> is_WebPageProvider impl \<longrightarrow>
      GetWebPages impl st = (Inr \<lparr>pages_Pages = []\<rparr>, st) \<and>
      ServeWebPage impl page st =
        (Inr \<lparr>page_Content = '''', page_ContentType = '''',
              page_Error = ''plugin does not implement WebPageProvider''\<rparr>, st)) \<and>
   (\<not> is_OperationsProvider impl \<longrightarrow>
      GetOperations impl st = (Inr \<lparr>ops_Operations = [], ops_SupportsOperations = False\<rparr>, st)) \<and>
   (\<not> is_FileAttachmentHandler impl \<longrightarrow>
      AcceptsFiles impl st =
        (Inr \<lparr>accepts_AcceptedTypes = [], accepts_SupportsFiles = False\<rparr>, st))"
proof -
  have 1: "\<not> is_VersionedTool impl \<longrightarrow>
      GetVersion impl st = (Inr \<lparr>version_Version = ''unknown''\<rparr>, st)"
    by (simp add: is_VersionedTool_def GetVersion_def)
  have 2: "\<not> is_AgentAwareTool impl \<longrightarrow> SetAgentContext impl agent st = (Inr (), st)"
    by (simp add: is_AgentAwareTool_def SetAgentContext_def)
  have 3: "\<not> is_DefaultSettingsProvider impl \<longrightarrow>
      GetDefaultSettings impl st =
        (Inr \<lparr>settings_SettingsJson = '''', settings_Error = ''''\<rparr>, st)"
    by (simp add: is_DefaultSettingsProvider_def GetDefaultSettings_def)
  have 4: "\<not> is_InitializationProvider impl \<longrightarrow>
      GetRequiredConfig marshal impl st = (Inr \<lparr>cvr_ConfigVars = []\<rparr>, st) \<and>
      ValidateConfig unmarshal impl configJson st =
        (Inr \<lparr>config_Success = False,
              config_Error = ''plugin does not implement InitializationProvider''\<rparr>, st) \<and>
      InitializeWithConfig unmarshal impl configJson st =
        (Inr \<lparr>config_Success = False,
              config_Error = ''plugin does not implement InitializationProvider''\<rparr>, st)"
    by (auto simp: is_InitializationProvider_def GetRequiredConfig_def ValidateConfig_def
        InitializeWithConfig_def split: option.splits)
  have 5: "\<not> is_MetadataProvider impl \<longrightarrow>
      GetMetadata impl st = (Inr \<lparr>metadata_Metadata = None, metadata_Error = ''''\<rparr>, st)"
    by (auto simp: is_MetadataProvider_def GetMetadata_def split: option.splits)
  have 6: "\<not> is_PluginCompatibility impl \<longrightarrow>
      GetCompatibilityInfo impl st =
        (Inr \<lparr>compat_MinAgentVersion = '''', compat_MaxAgentVersion = '''',
              compat_ApiVersion = ''''\<rparr>, st)"
    by (auto simp: is_PluginCompatibility_def GetCompatibilityInfo_def split: option.splits)
  have 7: "\<not> is_WebPageProvider impl \<longrightarrow>
      GetWebPages impl st = (Inr \<lparr>pages_Pages = []\<rparr>, st) \<and>
      ServeWebPage impl page st =
        (Inr \<lparr>page_Content = '''', page_ContentType = '''',
              page_Error = ''plugin does not implement WebPageProvider''\<rparr>, st)"
    by (auto simp: is_WebPageProvider_def GetWebPages_def ServeWebPage_def split: option.splits)
  have 8: "\<not> is_OperationsProvider impl \<longrightarrow>
      GetOperations impl st = (Inr \<lparr>ops_Operations = [], ops_SupportsOperations = False\<rparr>, st)"
    by (simp add: is_OperationsProvider_def GetOperations_def)
  have 9: "\<not> is_FileAttachmentHandler impl \<longrightarrow>
      AcceptsFiles impl st =
        (Inr \<lparr>accepts_AcceptedTypes = [], accepts_SupportsFiles = False\<rparr>, st)"
    by (auto simp: is_FileAttachmentHandler_def AcceptsFiles_def split: option.splits)
  from 1 2 3 4 5 6 7 8 9 show ?thesis by blast
qed

theorem absent_capability_responses_witness:
  "\<not> is_VersionedTool echo_plugin \<and> \<not> is_AgentAwareTool echo_plugin \<and>
   \<not> is_DefaultSettingsProvider echo_plugin \<and> \<not> is_InitializationProvider echo_plugin \<and>
   \<not> is_MetadataProvider echo_plugin \<and> \<not> is_PluginCompatibility echo_plugin \<and>
   \<not> is_WebPageProvider echo_plugin \<and> \<not> is_OperationsProvider echo_plugin \<and>
   \<not> is_FileAttachmentHandler echo_plugin \<and>
   GetVersion echo_plugin 0 = (Inr \<lparr>version_Version = ''unknown''\<rparr>, 0) \<and>
   SetAgentContext echo_plugin default_agent 0 = (Inr (), 0) \<and>
   GetDefaultSettings echo_plugin 0 =
     (Inr \<lparr>settings_SettingsJson = '''', settings_Error = ''''\<rparr>, 0) \<and>
   GetRequiredConfig render_null echo_plugin 0 = (Inr \<lparr>cvr_ConfigVars = []\<rparr>, 0) \<and>
   InitializeWithConfig empty_object echo_plugin ''{}'' 0 =
     (Inr \<lparr>config_Success = False,
           config_Error = ''plugin does not implement InitializationProvider''\<rparr>, 0) \<and>
   GetMetadata echo_plugin 0 = (Inr \<lparr>metadata_Metadata = None, metadata_Error = ''''\<rparr>, 0) \<and>
   GetCompatibilityInfo echo_plugin 0 =
     (Inr \<lparr>compat_MinAgentVersion = '''', compat_MaxAgentVersion = '''',
           compat_ApiVersion = ''''\<rparr>, 0) \<and>
   GetWebPages echo_plugin 0 = (Inr \<lparr>pages_Pages = []\<rparr>, 0) \<and>
   ServeWebPage echo_plugin home_page 0 =
     (Inr \<lparr>page_Content = '''', page_ContentType = '''',
           page_Error = ''plugin does not implement WebPageProvider''\<rparr>, 0) \<and>
   GetOperations echo_plugin 0 =
     (Inr \<lparr>ops_Operations = [], ops_SupportsOperations = False\<rparr>, 0) \<and>
   AcceptsFiles echo_plugin 0 =
     (Inr \<lparr>accepts_AcceptedTypes = [], accepts_SupportsFiles = False\<rparr>, 0)"
proof -
  have h: "\<not> is_VersionedTool echo_plugin" "\<not> is_AgentAwareTool echo_plugin"
    "\<not> is_DefaultSettingsProvider echo_plugin" "\<not> is_InitializationProvider echo_plugin"
    "\<not> is_MetadataProvider echo_plugin" "\<not> is_PluginCompatibility echo_plugin"
    "\<not> is_WebPageProvider echo_plugin" "\<not> is_OperationsProvider echo_plugin"
    "\<not> is_FileAttachmentHandler echo_plugin"
    by (simp_all add: echo_plugin_def is_VersionedTool_def is_AgentAwareTool_def
        is_DefaultSettingsProvider_def is_InitializationProvider_def is_MetadataProvider_def
        is_PluginCompatibility_def is_WebPageProvider_def is_OperationsProvider_def
        is_FileAttachmentHandler_def)
  from h absent_capability_responses
    [of echo_plugin 0 default_agent render_null empty_object "''{}''" home_page]
  show ?thesis by blast
qed

text \<open>
  C5. For a plugin that is no \<open>FileAttachmentHandler\<close>, the response of \<open>CallWithFiles\<close>
  (and the state of the plugin after it) is that of \<open>Call\<close> on the same context and the same
  arguments JSON: the files are dropped.
\<close>

theorem CallWithFiles_falls_back_to_Call:
  "\<not> is_FileAttachmentHandler impl \<Longrightarrow>
   CallWithFiles impl ctx req st = Call impl ctx \<lparr>call_ArgsJson = cwf_ArgsJson req\<rparr> st"
  by (auto simp: is_FileAttachmentHandler_def CallWithFiles_def Call_def
      split: option.splits prod.splits sum.splits)

theorem CallWithFiles_falls_back_to_Call_witness:
  "\<not> is_FileAttachmentHandler echo_plugin \<and>
   CallWithFiles echo_plugin () wav_request 0 =
     (Inr \<lparr>call_ResultJson = ''{}'', call_Error = ''''\<rparr>, Suc 0)"
proof -
  have h: "\<not> is_FileAttachmentHandler echo_plugin"
    by (simp add: is_FileAttachmentHandler_def echo_plugin_def)
  have "Call echo_plugin () \<lparr>call_ArgsJson = cwf_ArgsJson wav_request\<rparr> 0 =
        (Inr \<lparr>call_ResultJson = ''{}'', call_Error = ''''\<rparr>, Suc 0)"
    by (simp add: Call_def echo_plugin_def wav_request_def)
  with h CallWithFiles_falls_back_to_Call [OF h, of "()" wav_request 0] show ?thesis by simp
qed


section \<open>Operation-aware validation (C7, C8)\<close>

text \<open>
  C7. For a definition with a non-empty operations map, validation fails, with the error that
  the field \<open>operation\<close> is missing, unless the argument \<open>operation\<close> is a non-empty
  string (so when it is absent, null, not a string or empty). When it is a non-empty string
  that is no key of the operations map: if the first parameter named \<open>operation\<close> of the
  base list has a non-empty enum that contains the name, validation goes on to the globally
  required parameters and is not an unknown-operation error; otherwise it fails with the error
  \<open>unknown operation: <name>\<close>.
\<close>

theorem operation_argument_is_checked:
  assumes "def_Operations toolDef \<noteq> []"
  shows
    "(\<not> (\<exists>operation. params ''operation'' = Some (GString operation) \<and> operation \<noteq> '''') \<longrightarrow>
        ValidateToolParametersWithOperations (Some toolDef) params =
          Some (RequiredFieldMissing ''operation'')) \<and>
     (params ''operation'' = Some (GString operation) \<and> operation \<noteq> '''' \<and>
      map_of (def_Operations toolDef) operation = None \<longrightarrow>
        (if snd (findParameter (def_Parameters toolDef) ''operation'') \<and>
            Enum (fst (findParameter (def_Parameters toolDef) ''operation'')) \<noteq> [] \<and>
            operation \<in> set (Enum (fst (findParameter (def_Parameters toolDef) ''operation'')))
         then ValidateToolParametersWithOperations (Some toolDef) params =
                check_required (Some ''operation'') (def_Parameters toolDef) params \<and>
              ValidateToolParametersWithOperations (Some toolDef) params \<noteq>
                Some (UnknownOperation operation)
         else ValidateToolParametersWithOperations (Some toolDef) params =
                Some (UnknownOperation operation) \<and>
              error_string (UnknownOperation operation) = ''unknown operation: '' @ operation))"
proof -
  have ne: "\<And>skip ps. check_required skip ps params \<noteq> Some (UnknownOperation operation)"
    by (auto dest: check_required_Some)
  show ?thesis
    using assms validate_no_operation [of toolDef params]
      validate_unknown [of toolDef params operation] ne
    by auto
qed

theorem operation_argument_is_checked_witness:
  "def_Operations status_definition \<noteq> [] \<and>
   ValidateToolParametersWithOperations (Some status_definition) null_operation_args =
     Some (RequiredFieldMissing ''operation'') \<and>
   ValidateToolParametersWithOperations (Some status_definition) reset_args =
     Some (UnknownOperation ''reset'') \<and>
   ValidateToolParametersWithOperations (Some status_definition) ping_args =
     Some (RequiredFieldMissing ''target'')"
proof -
  have h: "def_Operations status_definition \<noteq> []" by (simp add: status_definition_def)
  have f: "findParameter (def_Parameters status_definition) ''operation'' =
     (YAMLToolParameter ''operation'' ''string'' ''operation'' True GNil
        [''echo'', ''status'', ''ping''] None [] None None None None '''', True)"
    by (simp add: status_definition_def)
  have a: "\<not> (\<exists>operation. null_operation_args ''operation'' = Some (GString operation) \<and>
        operation \<noteq> '''')"
    by (simp add: null_operation_args_def)
  have b: "reset_args ''operation'' = Some (GString ''reset'') \<and> ''reset'' \<noteq> '''' \<and>
      map_of (def_Operations status_definition) ''reset'' = None"
    by (simp add: reset_args_def status_definition_def)
  have c: "ping_args ''operation'' = Some (GString ''ping'') \<and> ''ping'' \<noteq> '''' \<and>
      map_of (def_Operations status_definition) ''ping'' = None"
    by (simp add: ping_args_def status_definition_def)
  have d: "check_required (Some ''operation'') (def_Parameters status_definition) ping_args =
      Some (RequiredFieldMissing ''target'')"
    by (simp add: status_definition_def ping_args_def plain_parameter_def isMissingParam_def)
  have 1: "ValidateToolParametersWithOperations (Some status_definition) null_operation_args =
     Some (RequiredFieldMissing ''operation'')"
    using operation_argument_is_checked [OF h, of null_operation_args] a by blast
  have 2: "ValidateToolParametersWithOperations (Some status_definition) reset_args =
     Some (UnknownOperation ''reset'')"
    using operation_argument_is_checked [OF h, of reset_args "''reset''"] b f by simp
  have 3: "ValidateToolParametersWithOperations (Some status_definition) ping_args =
     Some (RequiredFieldMissing ''target'')"
    using operation_argument_is_checked [OF h, of ping_args "''ping''"] c d f by simp
  from h 1 2 3 show ?thesis by blast
qed





end
